theory Spec2Isabelle
  imports Main "HOL-Library.Sublist"
begin

section \<open>Python values and their textual form\<close>

text \<open>
  The retry ladder of \<^verbatim>\<open>worldpop_zonal_stats\<close> classifies a failure by looking for a
  fixed text inside \<^verbatim>\<open>repr(ex.args)\<close>, and reports other failures by printing the same
  \<^verbatim>\<open>repr(ex.args)\<close>. The arguments of an exception are arbitrary Python objects; the
  model distinguishes a \<^verbatim>\<open>str\<close> (whose \<^verbatim>\<open>repr\<close> is computed below, for code points
  under 256) from any other object, which is carried as the text its \<^verbatim>\<open>repr\<close> returns.
\<close>

datatype pyval = PyStr string | PyObj string

definition printable :: "char \<Rightarrow> bool" where
  "printable c =
     (let n = (of_char c :: nat) in (32 \<le> n \<and> n < 127) \<or> (161 \<le> n \<and> n \<noteq> 173))"

definition hexdigits :: string where
  "hexdigits = ''0123456789abcdef''"

definition repr_char :: "char \<Rightarrow> char \<Rightarrow> string" where
  "repr_char quote c =
     (if c = quote \<or> c = CHR 0x5C then [CHR 0x5C, c]
      else if c = CHR 0x09 then [CHR 0x5C, CHR ''t'']
      else if c = CHR 0x0A then [CHR 0x5C, CHR ''n'']
      else if c = CHR 0x0D then [CHR 0x5C, CHR ''r'']
      else if printable c then [c]
      else [CHR 0x5C, CHR ''x'',
            hexdigits ! ((of_char c :: nat) div 16), hexdigits ! ((of_char c :: nat) mod 16)])"

definition repr_str :: "string \<Rightarrow> string" where
  "repr_str s =
     (let quote = (if CHR 0x27 \<in> set s \<and> CHR 0x22 \<notin> set s then CHR 0x22 else CHR 0x27)
      in [quote] @ concat (map (repr_char quote) s) @ [quote])"

fun repr :: "pyval \<Rightarrow> string" where
  "repr (PyStr s) = repr_str s"
| "repr (PyObj r) = r"

fun join :: "string \<Rightarrow> string list \<Rightarrow> string" where
  "join sep [] = []"
| "join sep [x] = x"
| "join sep (x # y # ys) = x @ sep @ join sep (y # ys)"

definition repr_tuple :: "pyval list \<Rightarrow> string" where
  "repr_tuple xs =
     (case xs of
        [] \<Rightarrow> ''()''
      | [x] \<Rightarrow> ''('' @ repr x @ '',)''
      | _ \<Rightarrow> ''('' @ join '', '' (map repr xs) @ '')'')"

section \<open>Exceptions\<close>

text \<open>
  A raised Python exception: whether its class derives from \<^verbatim>\<open>Exception\<close> (the only
  ones an \<^verbatim>\<open>except Exception\<close> clause catches; \<^verbatim>\<open>KeyboardInterrupt\<close> and
  \<^verbatim>\<open>SystemExit\<close> do not), the name of its class (\<^verbatim>\<open>type(ex).__name__\<close>) and its
  \<^verbatim>\<open>args\<close> tuple.
\<close>

record pyexn =
  is_Exception :: bool
  type_name :: string
  args :: "pyval list"

text \<open>The test \<^verbatim>\<open>"Output of image computation is too large" in repr(ex.args)\<close>,
  written out three times in the source (lines 70, 77 and 84).\<close>

definition too_large :: "pyexn \<Rightarrow> bool" where
  "too_large ex = sublist ''Output of image computation is too large'' (repr_tuple (args ex))"

text \<open>\<^verbatim>\<open>error_template.format(type(ex).__name__, ex.args)\<close> with
  \<^verbatim>\<open>error_template = "An exception of type {0} occurred. Arguments:\n{1!r}"\<close>.\<close>

definition error_template_format :: "pyexn \<Rightarrow> string" where
  "error_template_format ex =
     ''An exception of type '' @ type_name ex @ '' occurred. Arguments:'' @ [CHR 0x0A]
       @ repr_tuple (args ex)"

section \<open>The external collaborators\<close>

text \<open>
  One aggregation request: the arguments of one call of \<^verbatim>\<open>geemap.zonal_statistics\<close>.
  \<open>tile_scale = None\<close> is a call that does not pass \<^verbatim>\<open>tile_scale\<close>.
\<close>

record ('img, 'fc) request =
  in_value_raster :: 'img
  in_zone_vector :: 'fc
  out_file_path :: string
  scale :: int
  statistics_type :: string
  bestEffort :: bool
  tile_scale :: "int option"

text \<open>
  The client library and the remote platform are parameters of the model: polygon loading
  (\<^verbatim>\<open>geemap.shp_to_ee\<close>), the two lazy handle constructors (\<^verbatim>\<open>ee.ImageCollection\<close>,
  \<^verbatim>\<open>.mosaic()\<close>), each of which may raise, and the remote platform's answer to an
  aggregation request: an exception or the result table's text, together with the
  platform's next state.
\<close>

record ('img, 'fc, 'coll, 'r) env =
  shp_to_ee :: "string \<Rightarrow> pyexn + 'fc"
  ImageCollection :: "string \<Rightarrow> pyexn + 'coll"
  mosaic :: "'coll \<Rightarrow> pyexn + 'img"
  respond :: "'r \<Rightarrow> ('img, 'fc) request \<Rightarrow> (pyexn + string) \<times> 'r"

text \<open>
  What a run can change: the state of the remote platform, the local files, and the
  console. \<open>requests\<close> and \<open>written\<close> log every aggregation request issued and every
  file written, in order.
\<close>

record ('img, 'fc, 'r) world =
  remote :: 'r
  files :: "string \<rightharpoonup> string"
  requests :: "('img, 'fc) request list"
  written :: "(string \<times> string) list"
  stdout :: "string list"

text \<open>
  Modelled from the spec: \<^verbatim>\<open>geemap.zonal_statistics\<close> belongs to the external client
  library, not to this repository. On success it writes the result table to
  \<^verbatim>\<open>out_file_path\<close>; on any remote failure it raises and writes nothing.
\<close>

definition zonal_statistics ::
  "('img, 'fc, 'coll, 'r) env \<Rightarrow> ('img, 'fc) request \<Rightarrow> ('img, 'fc, 'r) world
     \<Rightarrow> (pyexn + unit) \<times> ('img, 'fc, 'r) world" where
  "zonal_statistics E q w =
     (case respond E (remote w) q of
        (Inl ex, r') \<Rightarrow> (Inl ex, w\<lparr>remote := r', requests := requests w @ [q]\<rparr>)
      | (Inr table, r') \<Rightarrow>
          (Inr (), w\<lparr>remote := r', requests := requests w @ [q],
                     files := (files w)(out_file_path q \<mapsto> table),
                     written := written w @ [(out_file_path q, table)]\<rparr>))"

text \<open>\<^verbatim>\<open>print(s)\<close>: one more entry on the console.\<close>

definition print :: "string \<Rightarrow> ('img, 'fc, 'r) world \<Rightarrow> ('img, 'fc, 'r) world" where
  "print s w = w\<lparr>stdout := stdout w @ [s]\<rparr>"

section \<open>The program\<close>

definition get_worldpop_data_from_gee ::
  "('img, 'fc, 'coll, 'r) env \<Rightarrow> bool \<Rightarrow> pyexn + 'coll" where
  "get_worldpop_data_from_gee E constrained =
     (if constrained then ImageCollection E ''WorldPop/GP/100m/pop_age_sex_cons_unadj''
      else ImageCollection E ''WorldPop/GP/100m/pop_age_sex'')"

definition worldpop_mosaic ::
  "('img, 'fc, 'coll, 'r) env \<Rightarrow> bool \<Rightarrow> pyexn + 'img" where
  "worldpop_mosaic E constrained =
     (case get_worldpop_data_from_gee E constrained of
        Inl ex \<Rightarrow> Inl ex
      | Inr pop_data \<Rightarrow> mosaic E pop_data)"

text \<open>How a call ends: it returns (\<^verbatim>\<open>None\<close>) or an exception leaves it.\<close>

datatype outcome = Returned | Raised pyexn

text \<open>
  \<^verbatim>\<open>worldpop_zonal_stats\<close>, with its three nested \<^verbatim>\<open>try\<close> blocks as they are written.
  The two loading calls stand before the first \<^verbatim>\<open>try\<close>. Each handler is
  \<^verbatim>\<open>except Exception\<close>.
\<close>

definition worldpop_zonal_stats ::
  "('img, 'fc, 'coll, 'r) env \<Rightarrow> string \<Rightarrow> string \<Rightarrow> bool \<Rightarrow> int \<Rightarrow> ('img, 'fc, 'r) world
     \<Rightarrow> outcome \<times> ('img, 'fc, 'r) world" where
  "worldpop_zonal_stats E shapefile out_path constrained scale' w =
     (case shp_to_ee E shapefile of
        Inl ex \<Rightarrow> (Raised ex, w)
      | Inr fc \<Rightarrow>
     (case worldpop_mosaic E constrained of
        Inl ex \<Rightarrow> (Raised ex, w)
      | Inr worldpop \<Rightarrow>
     (let req = \<lparr>in_value_raster = worldpop, in_zone_vector = fc, out_file_path = out_path,
                 scale = scale', statistics_type = ''SUM'', bestEffort = True,
                 tile_scale = None\<rparr>
      in
     (case zonal_statistics E req w of
        (Inr u, w1) \<Rightarrow> (Returned, w1)
      | (Inl ex, w1) \<Rightarrow>
          if \<not> is_Exception ex then (Raised ex, w1)
          else if too_large ex then
            (case zonal_statistics E (req\<lparr>tile_scale := Some 2\<rparr>)
                    (print ''Computation is too large, trying tileScale=2'' w1) of
               (Inr u, w2) \<Rightarrow> (Returned, w2)
             | (Inl ex, w2) \<Rightarrow>
                 if \<not> is_Exception ex then (Raised ex, w2)
                 else if too_large ex then
                   (case zonal_statistics E (req\<lparr>tile_scale := Some 4\<rparr>)
                           (print ''Computation is too large, trying tileScale=4'' w2) of
                      (Inr u, w3) \<Rightarrow> (Returned, w3)
                    | (Inl ex, w3) \<Rightarrow>
                        if \<not> is_Exception ex then (Raised ex, w3)
                        else if too_large ex then
                          (Returned,
                           print (''The shapefile is too big for the scale. You could try splitting up the shapefile or ''
                                  @ ''increasing the scale parameter.'') w3)
                        else (Returned, print (error_template_format ex) w3))
                 else (Returned, print (error_template_format ex) w2))
          else (Returned, print (error_template_format ex) w1)))))"

text \<open>
  A call of \<^verbatim>\<open>worldpop_zonal_stats\<close> binds the parameters the caller leaves out to the
  defaults of the \<^verbatim>\<open>def\<close> line: \<^verbatim>\<open>out_path='output.csv'\<close>, \<^verbatim>\<open>constrained=False\<close>,
  \<^verbatim>\<open>scale=100\<close>. An omitted argument is \<open>None\<close>. (The two helper functions have a
  default for \<^verbatim>\<open>constrained\<close> as well; every call of them in the source passes the
  argument, so they take it as it is.)
\<close>

definition call_worldpop_zonal_stats ::
  "('img, 'fc, 'coll, 'r) env \<Rightarrow> string \<Rightarrow> string option \<Rightarrow> bool option \<Rightarrow> int option
     \<Rightarrow> ('img, 'fc, 'r) world \<Rightarrow> outcome \<times> ('img, 'fc, 'r) world" where
  "call_worldpop_zonal_stats E shapefile out_path constrained scale' w =
     worldpop_zonal_stats E shapefile
       (case out_path of None \<Rightarrow> ''output.csv'' | Some p \<Rightarrow> p)
       (case constrained of None \<Rightarrow> False | Some c \<Rightarrow> c)
       (case scale' of None \<Rightarrow> 100 | Some s \<Rightarrow> s) w"

section \<open>Vocabulary of the statements\<close>

text \<open>
  The request of one attempt: everything but \<open>tile_scale\<close> comes from the arguments of
  the run. The ladder is the three requests the source can issue, in order.
\<close>

definition attempt :: "'img \<Rightarrow> 'fc \<Rightarrow> string \<Rightarrow> int \<Rightarrow> int option \<Rightarrow> ('img, 'fc) request" where
  "attempt img fc out_path sc t =
     \<lparr>in_value_raster = img, in_zone_vector = fc, out_file_path = out_path, scale = sc,
      statistics_type = ''SUM'', bestEffort = True, tile_scale = t\<rparr>"

definition ladder :: "'img \<Rightarrow> 'fc \<Rightarrow> string \<Rightarrow> int \<Rightarrow> ('img, 'fc) request list" where
  "ladder img fc out_path sc =
     [attempt img fc out_path sc None, attempt img fc out_path sc (Some 2),
      attempt img fc out_path sc (Some 4)]"

text \<open>The remote platform's answers to a sequence of requests, from state \<open>r\<close> on.\<close>

fun answers ::
  "('img, 'fc, 'coll, 'r) env \<Rightarrow> 'r \<Rightarrow> ('img, 'fc) request list \<Rightarrow> (pyexn + string) list" where
  "answers E r [] = []"
| "answers E r (q # qs) = (case respond E r q of (a, r') \<Rightarrow> a # answers E r' qs)"

text \<open>What a run added to the logs: requests issued, files written, lines printed.\<close>

definition issued :: "('img, 'fc, 'r) world \<Rightarrow> ('img, 'fc, 'r) world \<Rightarrow> ('img, 'fc) request list" where
  "issued w w' = drop (length (requests w)) (requests w')"

definition wrote :: "('img, 'fc, 'r) world \<Rightarrow> ('img, 'fc, 'r) world \<Rightarrow> (string \<times> string) list" where
  "wrote w w' = drop (length (written w)) (written w')"

definition printed :: "('img, 'fc, 'r) world \<Rightarrow> ('img, 'fc, 'r) world \<Rightarrow> string list" where
  "printed w w' = drop (length (stdout w)) (stdout w')"

text \<open>An error the handlers catch and classify as "too large".\<close>

definition too_large_error :: "pyexn \<Rightarrow> bool" where
  "too_large_error ex = (is_Exception ex \<and> too_large ex)"

text \<open>
  A remote platform that is deterministic in the sense of the specification: identical
  requests get identical responses, whatever happened before.
\<close>

definition deterministic_stub :: "('img, 'fc, 'coll, 'r) env \<Rightarrow> bool" where
  "deterministic_stub E = (\<forall>r r' q. fst (respond E r q) = fst (respond E r' q))"

text \<open>The characters of the searched text: letters and the space.\<close>

definition plain :: "char \<Rightarrow> bool" where
  "plain c =
     (let n = (of_char c :: nat) in n = 32 \<or> (65 \<le> n \<and> n \<le> 90) \<or> (97 \<le> n \<and> n \<le> 122))"

section \<open>Stub platforms for concrete runs\<close>

definition ee_too_large :: pyexn where
  "ee_too_large =
     \<lparr>is_Exception = True, type_name = ''EEException'',
      args = [PyStr ''Output of image computation is too large (19 bands for 158105436 pixels = 11.2 GiB).'']\<rparr>"

definition ee_timed_out :: pyexn where
  "ee_timed_out =
     \<lparr>is_Exception = True, type_name = ''EEException'', args = [PyStr ''Computation timed out.'']\<rparr>"



text \<open>
  A platform that answers the \<open>n\<close>-th aggregation request with the \<open>n\<close>-th entry of a
  script (and times out once the script is used up). Handles are the texts they were
  made from.
\<close>

definition scripted :: "(pyexn + string) list \<Rightarrow> (string, string, string, nat) env" where
  "scripted script =
     \<lparr>shp_to_ee = (\<lambda>path. Inr path),
      ImageCollection = (\<lambda>ident. Inr ident),
      mosaic = (\<lambda>coll. Inr coll),
      respond = (\<lambda>n q. (if n < length script then script ! n else Inl ee_timed_out, Suc n))\<rparr>"

text \<open>A platform whose answer depends on the request only: it accepts \<open>tile_scale = 2\<close>.\<close>

definition accepts_tile_scale_2 :: "(string, string, string, nat) env" where
  "accepts_tile_scale_2 =
     \<lparr>shp_to_ee = (\<lambda>path. Inr path),
      ImageCollection = (\<lambda>ident. Inr ident),
      mosaic = (\<lambda>coll. Inr coll),
      respond = (\<lambda>n q. (if tile_scale q = Some 2 then Inr ''district,sum'' else Inl ee_too_large,
                          Suc n))\<rparr>"

definition start :: "(string, string, nat) world" where
  "start = \<lparr>remote = 0, files = Map.empty, requests = [], written = [], stdout = []\<rparr>"



text \<open>Concrete runs, all from the empty world \<open>start\<close>.\<close>

definition exhausted_run :: "outcome \<times> (string, string, nat) world" where
  "exhausted_run =
     worldpop_zonal_stats (scripted [Inl ee_too_large, Inl ee_too_large, Inl ee_too_large])
       ''districts.shp'' ''output.csv'' False 100 start"

definition second_try_run :: "outcome \<times> (string, string, nat) world" where
  "second_try_run =
     worldpop_zonal_stats (scripted [Inl ee_too_large, Inr ''district,sum''])
       ''districts.shp'' ''output.csv'' False 100 start"

definition third_try_run :: "outcome \<times> (string, string, nat) world" where
  "third_try_run =
     worldpop_zonal_stats (scripted [Inl ee_too_large, Inl ee_too_large, Inr ''district,sum''])
       ''districts.shp'' ''output.csv'' False 100 start"

definition timed_out_run :: "outcome \<times> (string, string, nat) world" where
  "timed_out_run =
     worldpop_zonal_stats (scripted [Inl ee_too_large, Inl ee_timed_out])
       ''districts.shp'' ''output.csv'' False 100 start"

definition first_run :: "outcome \<times> (string, string, nat) world" where
  "first_run =
     worldpop_zonal_stats accepts_tile_scale_2 ''districts.shp'' ''output.csv'' False 100 start"

definition second_run :: "outcome \<times> (string, string, nat) world" where
  "second_run =
     worldpop_zonal_stats accepts_tile_scale_2 ''districts.shp'' ''output.csv'' False 100
       (snd first_run)"



section \<open>The searched text inside \<^verbatim>\<open>repr\<close>\<close>

text \<open>
  A text of plain characters that starts with \<^verbatim>\<open>O\<close> occurs in the \<^verbatim>\<open>repr\<close> of a
  string exactly when it occurs in the string: \<^verbatim>\<open>repr\<close> copies plain characters, and
  every escape sequence starts with a backslash and has no \<^verbatim>\<open>O\<close> after it.
\<close>

lemma sublist_split_at:
  assumes "c \<notin> set s"
  shows "sublist s (xs @ c # ys) \<longleftrightarrow> sublist s xs \<or> sublist s ys"
proof
  assume "sublist s (xs @ c # ys)"
  then consider "sublist s xs" | "sublist s (c # ys)"
    | xs1 xs2 where "s = xs1 @ xs2" "suffix xs1 xs" "prefix xs2 (c # ys)"
    by (auto simp: sublist_append)
  then show "sublist s xs \<or> sublist s ys"
  proof cases
    case 1 then show ?thesis by simp
  next
    case 2
    then have "prefix s (c # ys) \<or> sublist s ys" by (simp add: sublist_Cons_right)
    with assms show ?thesis by (cases s) auto
  next
    case 3
    with assms show ?thesis by (cases xs2) (auto simp: prefix_Cons)
  qed
next
  assume "sublist s xs \<or> sublist s ys"
  then show "sublist s (xs @ c # ys)"
    by (auto simp: sublist_append sublist_Cons_right)
qed



lemma plain_not_special:
  assumes "plain c"
  shows "c \<noteq> CHR 0x5C" "c \<noteq> CHR 0x27" "c \<noteq> CHR 0x22" "c \<noteq> CHR ''(''" "c \<noteq> CHR '',''"
    "c \<noteq> CHR '')''" "c \<noteq> CHR 0x09" "c \<noteq> CHR 0x0A" "c \<noteq> CHR 0x0D"
  using assms by (auto simp: plain_def)

lemma plain_printable: "plain c \<Longrightarrow> printable c"
  unfolding plain_def printable_def Let_def by arith

lemma repr_char_plain:
  assumes "plain c" and "q = CHR 0x27 \<or> q = CHR 0x22"
  shows "repr_char q c = [c]"
  using plain_not_special[OF assms(1)] plain_printable[OF assms(1)] assms(2)
  unfolding repr_char_def by auto

lemma too_large_text_plain:
  "list_all plain ''Output of image computation is too large''"
  by code_simp

lemma hexdigits_nth: "k < 16 \<Longrightarrow> CHR ''O'' \<noteq> hexdigits ! k"
proof -
  assume "k < 16"
  then have "k < length hexdigits" by (simp add: hexdigits_def)
  then have "hexdigits ! k \<in> set hexdigits" by (rule nth_mem)
  moreover have "CHR ''O'' \<notin> set hexdigits" by (simp add: hexdigits_def)
  ultimately show ?thesis by metis
qed

lemma repr_char_shape:
  assumes "q = CHR 0x27 \<or> q = CHR 0x22"
  shows "repr_char q c = [c] \<or> (\<exists>t. repr_char q c = CHR 0x5C # t \<and> CHR ''O'' \<notin> set t)"
proof -
  have "(of_char c :: nat) < 256" by simp
  then have "(of_char c :: nat) div 16 < 16" "(of_char c :: nat) mod 16 < 16" by arith+
  then have "CHR ''O'' \<noteq> hexdigits ! ((of_char c :: nat) div 16)"
    "CHR ''O'' \<noteq> hexdigits ! ((of_char c :: nat) mod 16)"
    by (simp_all add: hexdigits_nth)
  then show ?thesis using assms
    by (auto simp: repr_char_def)
qed

lemma prefix_concat_escape:
  assumes "\<And>c. f c = [c] \<or> (\<exists>t. f c = b # t)"
  shows "b \<notin> set xs \<Longrightarrow> prefix xs (concat (map f ms)) \<Longrightarrow> prefix xs ms"
proof (induction ms arbitrary: xs)
  case Nil
  then show ?case by simp
next
  case (Cons m ms)
  show ?case
  proof (cases xs)
    case Nil
    then show ?thesis by simp
  next
    case (Cons x xs')
    from assms[of m] show ?thesis
    proof
      assume "f m = [m]"
      with Cons.prems Cons.IH[of xs'] Cons show ?thesis by simp
    next
      assume "\<exists>t. f m = b # t"
      with Cons.prems Cons show ?thesis by auto
    qed
  qed
qed

lemma sublist_skip_tail:
  "a \<notin> set t \<Longrightarrow> sublist (a # s) (t @ rest) \<Longrightarrow> sublist (a # s) rest"
  by (induction t) (auto simp: sublist_Cons_right)

lemma sublist_concat_escape:
  assumes "\<And>c. f c = [c] \<or> (\<exists>t. f c = b # t \<and> a \<notin> set t)"
    and "b \<notin> set (a # s)"
  shows "sublist (a # s) (concat (map f ms)) \<Longrightarrow> sublist (a # s) ms"
proof (induction ms)
  case Nil
  then show ?case by simp
next
  case (Cons m ms)
  have shape: "\<And>c. f c = [c] \<or> (\<exists>t. f c = b # t)" using assms(1) by blast
  from assms(1)[of m] show ?case
  proof
    assume lit: "f m = [m]"
    with Cons.prems have "prefix (a # s) (concat (map f (m # ms))) \<or> sublist (a # s) (concat (map f ms))"
      by (simp add: sublist_Cons_right)
    then show ?thesis
    proof
      assume "prefix (a # s) (concat (map f (m # ms)))"
      then have "prefix (a # s) (m # ms)"
        using prefix_concat_escape[of f b "a # s" "m # ms"] shape assms(2) by blast
      then show ?thesis by (rule prefix_imp_sublist)
    next
      assume "sublist (a # s) (concat (map f ms))"
      then have "sublist (a # s) ms" by (rule Cons.IH)
      then show ?thesis by (simp add: sublist_Cons_right)
    qed
  next
    assume "\<exists>t. f m = b # t \<and> a \<notin> set t"
    then obtain t where t: "f m = b # t" "a \<notin> set t" by blast
    with Cons.prems assms(2) have "sublist (a # s) (t @ concat (map f ms))"
      by (auto simp: sublist_Cons_right)
    with t have "sublist (a # s) (concat (map f ms))" by (metis sublist_skip_tail)
    then have "sublist (a # s) ms" by (rule Cons.IH)
    then show ?thesis by (simp add: sublist_Cons_right)
  qed
qed

lemma concat_literal:
  "\<forall>c \<in> set s. f c = [c] \<Longrightarrow> concat (map f s) = s"
  by (induction s) auto

lemma sublist_concat_literal:
  assumes "\<forall>c \<in> set s. f c = [c]" and "sublist s ms"
  shows "sublist s (concat (map f ms))"
proof -
  from assms(2) obtain ps ss where "ms = ps @ s @ ss" by (auto simp: sublist_def)
  then have "concat (map f ms) = concat (map f ps) @ s @ concat (map f ss)"
    using concat_literal[OF assms(1)] by simp
  then show ?thesis by (metis sublist_appendI)
qed


lemma sublist_repr_str:
  assumes pl: "list_all plain (CHR ''O'' # s)"
  shows "sublist (CHR ''O'' # s) (repr_str msg) \<longleftrightarrow> sublist (CHR ''O'' # s) msg"
    (is "sublist ?s _ \<longleftrightarrow> _")
proof -
  define q where "q = (if CHR 0x27 \<in> set msg \<and> CHR 0x22 \<notin> set msg then CHR 0x22 else CHR 0x27)"
  have q: "q = CHR 0x27 \<or> q = CHR 0x22" by (simp add: q_def)
  have pl': "\<forall>c \<in> set ?s. plain c" using pl unfolding list_all_iff .
  have qs: "q \<notin> set ?s" using q pl' plain_not_special(2,3) by blast
  have bs: "CHR 0x5C \<notin> set ?s" using pl' plain_not_special(1) by blast
  have lit: "\<forall>c \<in> set ?s. repr_char q c = [c]"
    using pl' repr_char_plain[OF _ q] by blast
  have "repr_str msg = [] @ q # (concat (map (repr_char q) msg) @ q # [])"
    by (simp add: repr_str_def q_def Let_def)
  then have "sublist ?s (repr_str msg) \<longleftrightarrow> sublist ?s (concat (map (repr_char q) msg))"
    unfolding sublist_split_at[OF qs] by (simp only: sublist_split_at[OF qs] sublist_Cons_Nil simp_thms)
  also have "\<dots> \<longleftrightarrow> sublist ?s msg"
  proof
    assume "sublist ?s (concat (map (repr_char q) msg))"
    then show "sublist ?s msg"
      using sublist_concat_escape[of "repr_char q" "CHR 0x5C" "CHR ''O''" s msg, OF repr_char_shape[OF q] bs]
      by blast
  next
    assume "sublist ?s msg"
    then show "sublist ?s (concat (map (repr_char q) msg))"
      using sublist_concat_literal[OF lit] by blast
  qed
  finally show ?thesis .
qed

lemma sublist_repr_tuple_single:
  assumes pl: "list_all plain (CHR ''O'' # s)"
  shows "sublist (CHR ''O'' # s) (repr_tuple [PyStr msg]) \<longleftrightarrow> sublist (CHR ''O'' # s) msg"
    (is "sublist ?s _ \<longleftrightarrow> _")
proof -
  have pl': "\<forall>c \<in> set ?s. plain c" using pl unfolding list_all_iff .
  have p1: "CHR ''('' \<notin> set ?s" using pl' plain_not_special(4) by blast
  have p2: "CHR '','' \<notin> set ?s" using pl' plain_not_special(5) by blast
  have p3: "CHR '')'' \<notin> set ?s" using pl' plain_not_special(6) by blast
  have "repr_tuple [PyStr msg] = [] @ CHR ''('' # (repr_str msg @ CHR '','' # ([] @ CHR '')'' # []))"
    by (simp add: repr_tuple_def)
  then have "sublist ?s (repr_tuple [PyStr msg]) \<longleftrightarrow> sublist ?s (repr_str msg)"
    by (simp only: sublist_split_at[OF p1] sublist_split_at[OF p2] sublist_split_at[OF p3]
        sublist_Cons_Nil simp_thms)
  then show ?thesis by (simp only: sublist_repr_str[OF pl])
qed

lemma too_large_single_message:
  "args ex = [PyStr msg] \<Longrightarrow>
   too_large ex \<longleftrightarrow> sublist ''Output of image computation is too large'' msg"
  unfolding too_large_def using sublist_repr_tuple_single[OF too_large_text_plain] by simp

section \<open>Unfolding a run\<close>

lemma short_list_cases:
  assumes "length xs \<le> 2"
  shows "xs = [] \<or> (\<exists>a. xs = [a]) \<or> (\<exists>a b. xs = [a, b])"
proof (cases xs)
  case Nil
  then show ?thesis by simp
next
  case (Cons a ys)
  with assms have "length ys \<le> 1" by simp
  then have "ys = [] \<or> (\<exists>b. ys = [b])" by (cases ys) auto
  with Cons show ?thesis by auto
qed

lemmas run_defs = worldpop_zonal_stats_def zonal_statistics_def print_def too_large_error_def
  attempt_def ladder_def issued_def wrote_def printed_def error_template_format_def

section \<open>Facts about the stub platforms\<close>

lemma ee_too_large_caught: "too_large_error ee_too_large"
  by code_simp

lemma ee_too_large_facts: "is_Exception ee_too_large" "too_large ee_too_large"
  using ee_too_large_caught by (simp_all add: too_large_error_def)

lemma ee_timed_out_other: "is_Exception ee_timed_out" "\<not> too_large ee_timed_out"
  by code_simp+

lemma timed_out_report:
  "error_template_format ee_timed_out =
     ''An exception of type EEException occurred. Arguments:'' @ [CHR 0x0A]
       @ ''('' @ [CHR 0x27] @ ''Computation timed out.'' @ [CHR 0x27] @ '',)''"
  by code_simp

lemma scripted_loads:
  "shp_to_ee (scripted script) path = Inr path"
  "worldpop_mosaic (scripted script) False = Inr ''WorldPop/GP/100m/pop_age_sex''"
  by (simp_all add: scripted_def worldpop_mosaic_def get_worldpop_data_from_gee_def)

lemma scripted_answers3:
  "answers (scripted [a, b, c]) (remote start) (ladder img fc out_path sc) = [a, b, c]"
  by (simp add: scripted_def ladder_def start_def)

lemma scripted_answers2:
  "answers (scripted (a # b # rest)) (remote start) (take 2 (ladder img fc out_path sc)) = [a, b]"
  by (simp add: scripted_def ladder_def start_def)

lemmas eval_defs = run_defs scripted_def accepts_tile_scale_2_def start_def worldpop_mosaic_def
  get_worldpop_data_from_gee_def Let_def ee_too_large_facts ee_timed_out_other

lemma second_try_run_eval:
  "second_try_run =
     (Returned,
      \<lparr>remote = 2, files = [''output.csv'' \<mapsto> ''district,sum''],
       requests = take 2 (ladder ''WorldPop/GP/100m/pop_age_sex'' ''districts.shp'' ''output.csv'' 100),
       written = [(''output.csv'', ''district,sum'')],
       stdout = [''Computation is too large, trying tileScale=2'']\<rparr>)"
  by (simp add: second_try_run_def eval_defs)


lemma first_run_eval:
  "first_run =
     (Returned,
      \<lparr>remote = 2, files = [''output.csv'' \<mapsto> ''district,sum''],
       requests = take 2 (ladder ''WorldPop/GP/100m/pop_age_sex'' ''districts.shp'' ''output.csv'' 100),
       written = [(''output.csv'', ''district,sum'')],
       stdout = [''Computation is too large, trying tileScale=2'']\<rparr>)"
  by (simp add: first_run_def eval_defs)




lemma accepts_tile_scale_2_deterministic: "deterministic_stub accepts_tile_scale_2"
  by (simp add: deterministic_stub_def accepts_tile_scale_2_def)

section \<open>Dataset selection\<close>

text \<open>
  C6: \<^verbatim>\<open>get_worldpop_data_from_gee\<close> opens the top-down-constrained collection
  \<^verbatim>\<open>WorldPop/GP/100m/pop_age_sex_cons_unadj\<close> when \<^verbatim>\<open>constrained\<close> is true and the
  unconstrained collection \<^verbatim>\<open>WorldPop/GP/100m/pop_age_sex\<close> when it is false, and the
  two identifiers are different.
\<close>

theorem dataset_identifier_selected:
  "get_worldpop_data_from_gee E True = ImageCollection E ''WorldPop/GP/100m/pop_age_sex_cons_unadj''
   \<and> get_worldpop_data_from_gee E False = ImageCollection E ''WorldPop/GP/100m/pop_age_sex''
   \<and> ''WorldPop/GP/100m/pop_age_sex_cons_unadj'' \<noteq> ''WorldPop/GP/100m/pop_age_sex''"
  by (simp add: get_worldpop_data_from_gee_def)

section \<open>Parameter defaults\<close>

text \<open>
  C10: a call that supplies only the shapefile path runs with \<^verbatim>\<open>out_path = 'output.csv'\<close>,
  \<^verbatim>\<open>constrained = False\<close> and \<^verbatim>\<open>scale = 100\<close>: it is the same run as the call that
  passes these three values explicitly. Each parameter has its default on its own,
  whatever the caller passes for the other two.
\<close>

theorem defaults_bound:
  "call_worldpop_zonal_stats E shapefile None None None w
     = call_worldpop_zonal_stats E shapefile (Some ''output.csv'') (Some False) (Some 100) w
   \<and> call_worldpop_zonal_stats E shapefile None None None w
     = worldpop_zonal_stats E shapefile ''output.csv'' False 100 w
   \<and> call_worldpop_zonal_stats E shapefile None c s w
     = call_worldpop_zonal_stats E shapefile (Some ''output.csv'') c s w
   \<and> call_worldpop_zonal_stats E shapefile p None s w
     = call_worldpop_zonal_stats E shapefile p (Some False) s w
   \<and> call_worldpop_zonal_stats E shapefile p c None w
     = call_worldpop_zonal_stats E shapefile p c (Some 100) w"
  by (simp add: call_worldpop_zonal_stats_def)

section \<open>The retry ladder\<close>

text \<open>
  C1: when polygons and mosaic load and each of the three aggregation requests is
  answered by an error (an instance of \<^verbatim>\<open>Exception\<close>) whose \<^verbatim>\<open>repr(ex.args)\<close> contains
  "Output of image computation is too large", the run issues exactly the three requests
  of the ladder, with \<^verbatim>\<open>tile_scale\<close> unset, 2 and 4 in that order, writes no file, prints
  the two escalation notices and then the give-up message, and returns normally.
\<close>

theorem retry_exhausted:
  assumes "shp_to_ee E shapefile = Inr fc"
    and "worldpop_mosaic E constrained = Inr img"
    and "answers E (remote w) (ladder img fc out_path sc) = [Inl e1, Inl e2, Inl e3]"
    and "too_large_error e1" "too_large_error e2" "too_large_error e3"
    and "worldpop_zonal_stats E shapefile out_path constrained sc w = (res, w')"
  shows "issued w w' = ladder img fc out_path sc
         \<and> length (issued w w') = 3
         \<and> map tile_scale (issued w w') = [None, Some 2, Some 4]
         \<and> wrote w w' = [] \<and> files w' = files w
         \<and> printed w w' =
             [''Computation is too large, trying tileScale=2'',
              ''Computation is too large, trying tileScale=4'',
              ''The shapefile is too big for the scale. You could try splitting up the shapefile or increasing the scale parameter.'']
         \<and> res = Returned"
proof -
  from assms(3) obtain r1 r2 r3 where
    "respond E (remote w) (attempt img fc out_path sc None) = (Inl e1, r1)"
    "respond E r1 (attempt img fc out_path sc (Some 2)) = (Inl e2, r2)"
    "respond E r2 (attempt img fc out_path sc (Some 4)) = (Inl e3, r3)"
    unfolding ladder_def by (auto split: prod.splits)
  then show ?thesis
    using assms(1,2,4-7)
    by (auto simp add: run_defs)
qed

theorem retry_exhausted_witness:
  "too_large_error ee_too_large
   \<and> issued start (snd exhausted_run)
       = ladder ''WorldPop/GP/100m/pop_age_sex'' ''districts.shp'' ''output.csv'' 100
   \<and> length (issued start (snd exhausted_run)) = 3
   \<and> map tile_scale (issued start (snd exhausted_run)) = [None, Some 2, Some 4]
   \<and> wrote start (snd exhausted_run) = []
   \<and> files (snd exhausted_run) = files start
   \<and> printed start (snd exhausted_run) =
        [''Computation is too large, trying tileScale=2'',
         ''Computation is too large, trying tileScale=4'',
         ''The shapefile is too big for the scale. You could try splitting up the shapefile or increasing the scale parameter.'']
   \<and> fst exhausted_run = Returned"
proof -
  have shp: "shp_to_ee (scripted [Inl ee_too_large, Inl ee_too_large, Inl ee_too_large]) ''districts.shp'' = Inr ''districts.shp''"
    by (rule scripted_loads)
  have mos: "worldpop_mosaic (scripted [Inl ee_too_large, Inl ee_too_large, Inl ee_too_large]) False = Inr ''WorldPop/GP/100m/pop_age_sex''"
    by (rule scripted_loads)
  have run: "worldpop_zonal_stats (scripted [Inl ee_too_large, Inl ee_too_large, Inl ee_too_large])
               ''districts.shp'' ''output.csv'' False 100 start = (fst exhausted_run, snd exhausted_run)"
    by (simp add: exhausted_run_def)
  have ans: "answers (scripted [Inl ee_too_large, Inl ee_too_large, Inl ee_too_large]) (remote start)
               (ladder ''WorldPop/GP/100m/pop_age_sex'' ''districts.shp'' ''output.csv'' 100) = [Inl ee_too_large, Inl ee_too_large, Inl ee_too_large]"
    by (rule scripted_answers3)
  show ?thesis
    using retry_exhausted [OF shp mos ans ee_too_large_caught ee_too_large_caught
        ee_too_large_caught run] ee_too_large_caught
    by (simp add: ladder_def attempt_def)
qed

text \<open>
  C4: when the first request is answered by a "too large" error and the second succeeds,
  exactly two requests are issued, the second with \<^verbatim>\<open>tile_scale = 2\<close>, and the output file
  is written exactly once, with the table of the second answer.
\<close>

theorem second_attempt_succeeds:
  assumes "shp_to_ee E shapefile = Inr fc"
    and "worldpop_mosaic E constrained = Inr img"
    and "answers E (remote w) (take 2 (ladder img fc out_path sc)) = [Inl e1, Inr table]"
    and "too_large_error e1"
    and "worldpop_zonal_stats E shapefile out_path constrained sc w = (res, w')"
  shows "issued w w' = take 2 (ladder img fc out_path sc)
         \<and> length (issued w w') = 2
         \<and> map tile_scale (issued w w') = [None, Some 2]
         \<and> wrote w w' = [(out_path, table)]
         \<and> files w' = (files w)(out_path \<mapsto> table)
         \<and> printed w w' = [''Computation is too large, trying tileScale=2'']
         \<and> res = Returned"
proof -
  from assms(3) obtain r1 r2 where
    "respond E (remote w) (attempt img fc out_path sc None) = (Inl e1, r1)"
    "respond E r1 (attempt img fc out_path sc (Some 2)) = (Inr table, r2)"
    unfolding ladder_def by (auto split: prod.splits)
  then show ?thesis
    using assms(1,2,4,5) by (auto simp add: run_defs)
qed

theorem second_attempt_succeeds_witness:
  "too_large_error ee_too_large
   \<and> issued start (snd second_try_run)
       = take 2 (ladder ''WorldPop/GP/100m/pop_age_sex'' ''districts.shp'' ''output.csv'' 100)
   \<and> length (issued start (snd second_try_run)) = 2
   \<and> map tile_scale (issued start (snd second_try_run)) = [None, Some 2]
   \<and> wrote start (snd second_try_run) = [(''output.csv'', ''district,sum'')]
   \<and> files (snd second_try_run) = (files start)(''output.csv'' \<mapsto> ''district,sum'')
   \<and> printed start (snd second_try_run) = [''Computation is too large, trying tileScale=2'']
   \<and> fst second_try_run = Returned"
proof -
  have shp: "shp_to_ee (scripted [Inl ee_too_large, Inr ''district,sum'']) ''districts.shp'' = Inr ''districts.shp''"
    by (rule scripted_loads)
  have mos: "worldpop_mosaic (scripted [Inl ee_too_large, Inr ''district,sum'']) False = Inr ''WorldPop/GP/100m/pop_age_sex''"
    by (rule scripted_loads)
  have run: "worldpop_zonal_stats (scripted [Inl ee_too_large, Inr ''district,sum''])
               ''districts.shp'' ''output.csv'' False 100 start = (fst second_try_run, snd second_try_run)"
    by (simp add: second_try_run_def)
  have ans: "answers (scripted [Inl ee_too_large, Inr ''district,sum'']) (remote start)
               (take 2 (ladder ''WorldPop/GP/100m/pop_age_sex'' ''districts.shp'' ''output.csv'' 100)) = [Inl ee_too_large, Inr ''district,sum'']"
    by (rule scripted_answers2)
  show ?thesis
    using second_attempt_succeeds [OF shp mos ans ee_too_large_caught run] ee_too_large_caught
    by (simp add: ladder_def attempt_def)
qed

text \<open>
  C8: when the first two requests are answered by "too large" errors and the third
  succeeds, exactly three requests are issued, the third with \<^verbatim>\<open>tile_scale = 4\<close>, the
  output file is written exactly once with the table of the third answer, and the only
  lines printed are the two escalation notices: no error report, no give-up message.
\<close>

theorem third_attempt_succeeds:
  assumes "shp_to_ee E shapefile = Inr fc"
    and "worldpop_mosaic E constrained = Inr img"
    and "answers E (remote w) (ladder img fc out_path sc) = [Inl e1, Inl e2, Inr table]"
    and "too_large_error e1" and "too_large_error e2"
    and "worldpop_zonal_stats E shapefile out_path constrained sc w = (res, w')"
  shows "issued w w' = ladder img fc out_path sc
         \<and> length (issued w w') = 3
         \<and> map tile_scale (issued w w') = [None, Some 2, Some 4]
         \<and> wrote w w' = [(out_path, table)]
         \<and> files w' = (files w)(out_path \<mapsto> table)
         \<and> printed w w' = [''Computation is too large, trying tileScale=2'',
                            ''Computation is too large, trying tileScale=4'']
         \<and> res = Returned"
proof -
  from assms(3) obtain r1 r2 r3 where
    "respond E (remote w) (attempt img fc out_path sc None) = (Inl e1, r1)"
    "respond E r1 (attempt img fc out_path sc (Some 2)) = (Inl e2, r2)"
    "respond E r2 (attempt img fc out_path sc (Some 4)) = (Inr table, r3)"
    unfolding ladder_def by (auto split: prod.splits)
  then show ?thesis
    using assms(1,2,4-6) by (auto simp add: run_defs)
qed

theorem third_attempt_succeeds_witness:
  "too_large_error ee_too_large
   \<and> issued start (snd third_try_run)
       = ladder ''WorldPop/GP/100m/pop_age_sex'' ''districts.shp'' ''output.csv'' 100
   \<and> length (issued start (snd third_try_run)) = 3
   \<and> map tile_scale (issued start (snd third_try_run)) = [None, Some 2, Some 4]
   \<and> wrote start (snd third_try_run) = [(''output.csv'', ''district,sum'')]
   \<and> files (snd third_try_run) = (files start)(''output.csv'' \<mapsto> ''district,sum'')
   \<and> printed start (snd third_try_run) =
        [''Computation is too large, trying tileScale=2'',
         ''Computation is too large, trying tileScale=4'']
   \<and> fst third_try_run = Returned"
proof -
  have shp: "shp_to_ee (scripted [Inl ee_too_large, Inl ee_too_large, Inr ''district,sum'']) ''districts.shp'' = Inr ''districts.shp''"
    by (rule scripted_loads)
  have mos: "worldpop_mosaic (scripted [Inl ee_too_large, Inl ee_too_large, Inr ''district,sum'']) False = Inr ''WorldPop/GP/100m/pop_age_sex''"
    by (rule scripted_loads)
  have run: "worldpop_zonal_stats (scripted [Inl ee_too_large, Inl ee_too_large, Inr ''district,sum''])
               ''districts.shp'' ''output.csv'' False 100 start = (fst third_try_run, snd third_try_run)"
    by (simp add: third_try_run_def)
  have ans: "answers (scripted [Inl ee_too_large, Inl ee_too_large, Inr ''district,sum'']) (remote start)
               (ladder ''WorldPop/GP/100m/pop_age_sex'' ''districts.shp'' ''output.csv'' 100) = [Inl ee_too_large, Inl ee_too_large, Inr ''district,sum'']"
    by (rule scripted_answers3)
  show ?thesis
    using third_attempt_succeeds [OF shp mos ans ee_too_large_caught ee_too_large_caught run]
      ee_too_large_caught
    by (simp add: ladder_def attempt_def)
qed

text \<open>
  C5: when attempt \<open>n\<close> (here \<open>n = Suc (length es)\<close>, reached through \<open>length es\<close> "too
  large" errors) is answered by an error whose \<^verbatim>\<open>repr(ex.args)\<close> does not contain the
  searched text, the ladder ends there: exactly \<open>n\<close> requests are issued, no file is
  written, the last line printed reports the error's type name and arguments, and the
  run returns normally. With \<open>es = []\<close> exactly one request is issued.
\<close>

theorem other_error_ends_ladder:
  assumes "shp_to_ee E shapefile = Inr fc"
    and "worldpop_mosaic E constrained = Inr img"
    and "length es \<le> 2"
    and "answers E (remote w) (take (Suc (length es)) (ladder img fc out_path sc))
           = map Inl es @ [Inl ex]"
    and "\<forall>e \<in> set es. too_large_error e"
    and "is_Exception ex" and "\<not> too_large ex"
    and "worldpop_zonal_stats E shapefile out_path constrained sc w = (res, w')"
  shows "issued w w' = take (Suc (length es)) (ladder img fc out_path sc)
         \<and> length (issued w w') = Suc (length es)
         \<and> wrote w w' = [] \<and> files w' = files w
         \<and> printed w w' =
              take (length es) [''Computation is too large, trying tileScale=2'',
                                ''Computation is too large, trying tileScale=4'']
              @ [''An exception of type '' @ type_name ex @ '' occurred. Arguments:''
                   @ [CHR 0x0A] @ repr_tuple (args ex)]
         \<and> res = Returned"
proof -
  from assms(3) consider "es = []" | e1 where "es = [e1]" | e1 e2 where "es = [e1, e2]"
    using short_list_cases by blast
  then show ?thesis
  proof cases
    case 1
    with assms(4) obtain r1 where
      "respond E (remote w) (attempt img fc out_path sc None) = (Inl ex, r1)"
      unfolding ladder_def by (auto split: prod.splits)
    then show ?thesis
      using 1 assms(1,2,5-8) by (auto simp add: run_defs)
  next
    case 2
    with assms(4) obtain r1 r2 where
      "respond E (remote w) (attempt img fc out_path sc None) = (Inl e1, r1)"
      "respond E r1 (attempt img fc out_path sc (Some 2)) = (Inl ex, r2)"
      unfolding ladder_def by (auto split: prod.splits)
    then show ?thesis
      using 2 assms(1,2,5-8) by (auto simp add: run_defs)
  next
    case 3
    with assms(4) obtain r1 r2 r3 where
      "respond E (remote w) (attempt img fc out_path sc None) = (Inl e1, r1)"
      "respond E r1 (attempt img fc out_path sc (Some 2)) = (Inl e2, r2)"
      "respond E r2 (attempt img fc out_path sc (Some 4)) = (Inl ex, r3)"
      unfolding ladder_def by (auto split: prod.splits)
    then show ?thesis
      using 3 assms(1,2,5-8) by (auto simp add: run_defs)
  qed
qed

theorem other_error_ends_ladder_witness:
  "too_large_error ee_too_large \<and> is_Exception ee_timed_out \<and> \<not> too_large ee_timed_out
   \<and> issued start (snd timed_out_run)
       = take 2 (ladder ''WorldPop/GP/100m/pop_age_sex'' ''districts.shp'' ''output.csv'' 100)
   \<and> length (issued start (snd timed_out_run)) = 2
   \<and> wrote start (snd timed_out_run) = []
   \<and> files (snd timed_out_run) = files start
   \<and> printed start (snd timed_out_run) =
        [''Computation is too large, trying tileScale=2'',
         ''An exception of type EEException occurred. Arguments:'' @ [CHR 0x0A]
           @ ''('' @ [CHR 0x27] @ ''Computation timed out.'' @ [CHR 0x27] @ '',)'']
   \<and> fst timed_out_run = Returned"
proof -
  have shp: "shp_to_ee (scripted [Inl ee_too_large, Inl ee_timed_out]) ''districts.shp'' = Inr ''districts.shp''"
    by (rule scripted_loads)
  have mos: "worldpop_mosaic (scripted [Inl ee_too_large, Inl ee_timed_out]) False = Inr ''WorldPop/GP/100m/pop_age_sex''"
    by (rule scripted_loads)
  have run: "worldpop_zonal_stats (scripted [Inl ee_too_large, Inl ee_timed_out])
               ''districts.shp'' ''output.csv'' False 100 start = (fst timed_out_run, snd timed_out_run)"
    by (simp add: timed_out_run_def)
  have len: "length [ee_too_large] \<le> 2" by simp
  have ans: "answers (scripted [Inl ee_too_large, Inl ee_timed_out]) (remote start)
               (take (Suc (length [ee_too_large]))
                  (ladder ''WorldPop/GP/100m/pop_age_sex'' ''districts.shp'' ''output.csv'' 100))
             = map Inl [ee_too_large] @ [Inl ee_timed_out]"
    by (simp add: scripted_def ladder_def start_def)
  have all: "\<forall>e \<in> set [ee_too_large]. too_large_error e"
    by (simp add: ee_too_large_caught)
  show ?thesis
    using other_error_ends_ladder [OF shp mos len ans all ee_timed_out_other run]
      ee_too_large_caught ee_timed_out_other timed_out_report
    by (simp add: ladder_def attempt_def error_template_format_def)
qed

lemma escalation_core:
  assumes "shp_to_ee E shapefile = Inr fc"
    and "worldpop_mosaic E constrained = Inr img"
    and "length es \<le> 1"
    and "answers E (remote w) (take (Suc (length es)) (ladder img fc out_path sc))
           = map Inl es @ [Inl ex]"
    and "\<forall>e \<in> set es. too_large_error e"
    and "is_Exception ex"
    and "worldpop_zonal_stats E shapefile out_path constrained sc w = (res, w')"
  shows "(Suc (length es) < length (issued w w') \<longleftrightarrow> too_large ex)
         \<and> (too_large ex \<longrightarrow>
              issued w w' ! Suc (length es)
                = attempt img fc out_path sc (Some (2 ^ Suc (length es))))
         \<and> (\<not> too_large ex \<longrightarrow> issued w w' = take (Suc (length es)) (ladder img fc out_path sc))"
proof -
  from assms(3) consider "es = []" | e1 where "es = [e1]"
    by (cases es) auto
  then show ?thesis
  proof cases
    case 1
    with assms(4) obtain r1 where
      r: "respond E (remote w) (attempt img fc out_path sc None) = (Inl ex, r1)"
      unfolding ladder_def by (auto split: prod.splits)
    obtain a2 r2 where "respond E r1 (attempt img fc out_path sc (Some 2)) = (a2, r2)"
      by (cases "respond E r1 (attempt img fc out_path sc (Some 2))")
    with r show ?thesis
      using 1 assms(1,2,5-7)
      by (cases a2) (auto simp add: run_defs Let_def split: prod.splits sum.splits if_splits)
  next
    case 2
    with assms(4) obtain r1 r2 where
      r: "respond E (remote w) (attempt img fc out_path sc None) = (Inl e1, r1)"
      "respond E r1 (attempt img fc out_path sc (Some 2)) = (Inl ex, r2)"
      unfolding ladder_def by (auto split: prod.splits)
    obtain a3 r3 where "respond E r2 (attempt img fc out_path sc (Some 4)) = (a3, r3)"
      by (cases "respond E r2 (attempt img fc out_path sc (Some 4))")
    with r show ?thesis
      using 2 assms(1,2,5-7)
      by (cases a3) (auto simp add: run_defs Let_def split: prod.splits sum.splits if_splits)
  qed
qed

text \<open>
  C2: at attempt \<open>n\<close> in \<open>{1, 2}\<close> (\<open>n = Suc (length es)\<close>) answered by an error \<open>ex\<close>,
  request \<open>n + 1\<close> is issued if and only if \<^verbatim>\<open>repr(ex.args)\<close> contains "Output of image
  computation is too large"; when it is issued it is the ladder's next request, with
  \<^verbatim>\<open>tile_scale\<close> doubled to \<open>2 ^ n\<close>; otherwise the run stops after \<open>n\<close> requests. For an
  error made from a single message string, \<^verbatim>\<open>repr(ex.args)\<close> contains the text exactly
  when the message does.
\<close>

theorem escalation_iff_too_large:
  assumes "shp_to_ee E shapefile = Inr fc"
    and "worldpop_mosaic E constrained = Inr img"
    and "length es \<le> 1"
    and "answers E (remote w) (take (Suc (length es)) (ladder img fc out_path sc))
           = map Inl es @ [Inl ex]"
    and "\<forall>e \<in> set es. too_large_error e"
    and "is_Exception ex"
    and "worldpop_zonal_stats E shapefile out_path constrained sc w = (res, w')"
  shows "(Suc (length es) < length (issued w w')
            \<longleftrightarrow> sublist ''Output of image computation is too large'' (repr_tuple (args ex)))
         \<and> (Suc (length es) < length (issued w w') \<longrightarrow>
              issued w w' ! Suc (length es)
                = attempt img fc out_path sc (Some (2 ^ Suc (length es))))
         \<and> (\<not> Suc (length es) < length (issued w w') \<longrightarrow>
              issued w w' = take (Suc (length es)) (ladder img fc out_path sc))
         \<and> (\<forall>msg. args ex = [PyStr msg] \<longrightarrow>
              (Suc (length es) < length (issued w w')
                 \<longleftrightarrow> sublist ''Output of image computation is too large'' msg))"
proof -
  note core = escalation_core[OF assms]
  have single: "\<forall>msg. args ex = [PyStr msg] \<longrightarrow>
      (too_large ex \<longleftrightarrow> sublist ''Output of image computation is too large'' msg)"
    using too_large_single_message by blast
  show ?thesis using core single unfolding too_large_def by blast
qed

theorem escalation_iff_too_large_witness:
  "sublist ''Output of image computation is too large'' (repr_tuple (args ee_too_large))
   \<and> 2 < length (issued start (snd third_try_run))
   \<and> issued start (snd third_try_run) ! 2
       = attempt ''WorldPop/GP/100m/pop_age_sex'' ''districts.shp'' ''output.csv'' 100 (Some 4)"
proof -
  have shp: "shp_to_ee (scripted [Inl ee_too_large, Inl ee_too_large, Inr ''district,sum'']) ''districts.shp'' = Inr ''districts.shp''"
    by (rule scripted_loads)
  have mos: "worldpop_mosaic (scripted [Inl ee_too_large, Inl ee_too_large, Inr ''district,sum'']) False = Inr ''WorldPop/GP/100m/pop_age_sex''"
    by (rule scripted_loads)
  have run: "worldpop_zonal_stats (scripted [Inl ee_too_large, Inl ee_too_large, Inr ''district,sum''])
               ''districts.shp'' ''output.csv'' False 100 start = (fst third_try_run, snd third_try_run)"
    by (simp add: third_try_run_def)
  have len: "length [ee_too_large] \<le> 1" by simp
  have ans: "answers (scripted [Inl ee_too_large, Inl ee_too_large, Inr ''district,sum''])
               (remote start)
               (take (Suc (length [ee_too_large]))
                  (ladder ''WorldPop/GP/100m/pop_age_sex'' ''districts.shp'' ''output.csv'' 100))
             = map Inl [ee_too_large] @ [Inl ee_too_large]"
    by (simp add: scripted_def ladder_def start_def)
  have all: "\<forall>e \<in> set [ee_too_large]. too_large_error e"
    by (simp add: ee_too_large_caught)
  have tl: "sublist ''Output of image computation is too large'' (repr_tuple (args ee_too_large))"
    using ee_too_large_facts(2) by (simp add: too_large_def)
  show ?thesis
    using escalation_iff_too_large [OF shp mos len ans all ee_too_large_facts(1) run] tl
    by (simp add: numeral_2_eq_2)
qed

text \<open>
  C7: every request a run issues carries the raster handle, the polygon collection, the
  output path, the scale, the statistic \<^verbatim>\<open>SUM\<close> and the best-effort flag of that run;
  only \<^verbatim>\<open>tile_scale\<close> differs between them, following unset, 2, 4.
\<close>

theorem only_tile_scale_changes:
  assumes "worldpop_zonal_stats E shapefile out_path constrained sc w = (res, w')"
  shows "prefix (map tile_scale (issued w w')) [None, Some 2, Some 4]
         \<and> (\<forall>q \<in> set (issued w w').
               worldpop_mosaic E constrained = Inr (in_value_raster q)
               \<and> shp_to_ee E shapefile = Inr (in_zone_vector q)
               \<and> out_file_path q = out_path \<and> scale q = sc
               \<and> statistics_type q = ''SUM'' \<and> bestEffort q = True)"
  using assms
  by (auto simp add: run_defs Let_def split: prod.splits sum.splits if_splits)

theorem only_tile_scale_changes_witness:
  "issued start (snd second_try_run)
     = take 2 (ladder ''WorldPop/GP/100m/pop_age_sex'' ''districts.shp'' ''output.csv'' 100)
   \<and> prefix (map tile_scale (issued start (snd second_try_run))) [None, Some 2, Some 4]
   \<and> list_all (\<lambda>q. in_value_raster q = ''WorldPop/GP/100m/pop_age_sex''
                     \<and> in_zone_vector q = ''districts.shp''
                     \<and> out_file_path q = ''output.csv'' \<and> scale q = 100
                     \<and> statistics_type q = ''SUM'' \<and> bestEffort q = True)
        (issued start (snd second_try_run))"
proof -
  have run: "worldpop_zonal_stats (scripted [Inl ee_too_large, Inr ''district,sum''])
               ''districts.shp'' ''output.csv'' False 100 start
             = (fst second_try_run, snd second_try_run)"
    by (simp add: second_try_run_def)
  have iss: "issued start (snd second_try_run)
     = take 2 (ladder ''WorldPop/GP/100m/pop_age_sex'' ''districts.shp'' ''output.csv'' 100)"
    by (simp add: second_try_run_eval issued_def start_def)
  show ?thesis
    using only_tile_scale_changes [OF run] iss
    by (simp add: list_all_iff scripted_loads ladder_def attempt_def)
qed

section \<open>Which errors reach the caller\<close>





section \<open>Repeated runs\<close>

lemma two_runs_agree:
  assumes "shp_to_ee E shapefile = Inr fc"
    and "worldpop_mosaic E constrained = Inr img"
    and "respond E (remote w1) (attempt img fc out_path sc None) = (a1, r1)"
    and "respond E r1 (attempt img fc out_path sc (Some 2)) = (a2, r2)"
    and "respond E r2 (attempt img fc out_path sc (Some 4)) = (a3, r3)"
    and "respond E (remote w2) (attempt img fc out_path sc None) = (a1, s1)"
    and "respond E s1 (attempt img fc out_path sc (Some 2)) = (a2, s2)"
    and "respond E s2 (attempt img fc out_path sc (Some 4)) = (a3, s3)"
    and "worldpop_zonal_stats E shapefile out_path constrained sc w1 = (res1, w1')"
    and "worldpop_zonal_stats E shapefile out_path constrained sc w2 = (res2, w2')"
  shows "issued w1 w1' = issued w2 w2' \<and> wrote w1 w1' = wrote w2 w2'
         \<and> printed w1 w1' = printed w2 w2' \<and> res1 = res2
         \<and> (wrote w1 w1' \<noteq> [] \<longrightarrow> files w1' out_path = files w2' out_path)"
  using assms
  by (cases a1; cases a2; cases a3) (auto simp add: run_defs Let_def split: if_splits)

text \<open>
  C9: against a platform that answers identical requests identically, two runs with the
  same arguments, from any two states of the world, issue the same requests, write the
  same files with the same content, print the same lines and end the same way; when a
  file is written, the output path holds the same content after either run.
\<close>

theorem same_inputs_same_run:
  assumes "deterministic_stub E"
    and "worldpop_zonal_stats E shapefile out_path constrained sc w1 = (res1, w1')"
    and "worldpop_zonal_stats E shapefile out_path constrained sc w2 = (res2, w2')"
  shows "issued w1 w1' = issued w2 w2' \<and> wrote w1 w1' = wrote w2 w2'
         \<and> printed w1 w1' = printed w2 w2' \<and> res1 = res2
         \<and> (wrote w1 w1' \<noteq> [] \<longrightarrow> files w1' out_path = files w2' out_path)"
proof (cases "shp_to_ee E shapefile")
  case (Inl ex)
  with assms(2,3) show ?thesis by (auto simp add: run_defs)
next
  case fc: (Inr fc)
  show ?thesis
  proof (cases "worldpop_mosaic E constrained")
    case (Inl ex)
    with fc assms(2,3) show ?thesis by (auto simp add: run_defs)
  next
    case img: (Inr img)
    obtain a1 r1 where 1: "respond E (remote w1) (attempt img fc out_path sc None) = (a1, r1)"
      by (rule prod.exhaust)
    obtain a2 r2 where 2: "respond E r1 (attempt img fc out_path sc (Some 2)) = (a2, r2)"
      by (rule prod.exhaust)
    obtain a3 r3 where 3: "respond E r2 (attempt img fc out_path sc (Some 4)) = (a3, r3)"
      by (rule prod.exhaust)
    obtain b1 s1 where 4: "respond E (remote w2) (attempt img fc out_path sc None) = (b1, s1)"
      by (rule prod.exhaust)
    obtain b2 s2 where 5: "respond E s1 (attempt img fc out_path sc (Some 2)) = (b2, s2)"
      by (rule prod.exhaust)
    obtain b3 s3 where 6: "respond E s2 (attempt img fc out_path sc (Some 4)) = (b3, s3)"
      by (rule prod.exhaust)
    have "b1 = a1" using assms(1) 1 4 unfolding deterministic_stub_def by (metis fst_conv)
    moreover have "b2 = a2" using assms(1) 2 5 unfolding deterministic_stub_def by (metis fst_conv)
    moreover have "b3 = a3" using assms(1) 3 6 unfolding deterministic_stub_def by (metis fst_conv)
    ultimately show ?thesis
      using two_runs_agree[OF fc img 1 2 3 _ _ _ assms(2,3)] 4 5 6 by blast
  qed
qed

theorem same_inputs_same_run_witness:
  "deterministic_stub accepts_tile_scale_2
   \<and> issued start (snd first_run) = issued (snd first_run) (snd second_run)
   \<and> wrote start (snd first_run) = [(''output.csv'', ''district,sum'')]
   \<and> wrote (snd first_run) (snd second_run) = [(''output.csv'', ''district,sum'')]
   \<and> printed start (snd first_run) = printed (snd first_run) (snd second_run)
   \<and> fst first_run = fst second_run
   \<and> files (snd first_run) ''output.csv'' = files (snd second_run) ''output.csv''"
proof -
  have run1: "worldpop_zonal_stats accepts_tile_scale_2 ''districts.shp'' ''output.csv'' False 100
                start = (fst first_run, snd first_run)"
    by (simp add: first_run_def)
  have run2: "worldpop_zonal_stats accepts_tile_scale_2 ''districts.shp'' ''output.csv'' False 100
                (snd first_run) = (fst second_run, snd second_run)"
    by (simp add: second_run_def)
  have wr: "wrote start (snd first_run) = [(''output.csv'', ''district,sum'')]"
    by (simp add: first_run_eval wrote_def start_def)
  show ?thesis
    using same_inputs_same_run [OF accepts_tile_scale_2_deterministic run1 run2] wr
      accepts_tile_scale_2_deterministic
    by simp
qed

end
